theory Spec2Isabelle
  imports Main "HOL-Library.Word"
begin

section \<open>Data model\<close>

text \<open>
  Go's \<^verbatim>\<open>int64\<close> identities are 64-bit words; only equality is ever used on them.
  A Go pointer that may be \<^verbatim>\<open>nil\<close> is an \<open>option\<close>; a Go \<^verbatim>\<open>error\<close> result is an
  \<open>error option\<close> (\<open>None\<close> is \<^verbatim>\<open>nil\<close>), and a \<^verbatim>\<open>(value, error)\<close> pair is a sum with
  \<open>Inl\<close> for the error.
\<close>

type_synonym int64 = "64 word"

text \<open>
  The error values that can reach the code of the adapter and of the token source:
  the four sentinels of package \<^verbatim>\<open>domain\<close> the source returns; \<^verbatim>\<open>sql.ErrNoRows\<close>, which
  \<^verbatim>\<open>database/sql\<close> returns from \<^verbatim>\<open>Row.Scan\<close> when the query selected no row; a value of the
  driver's numeric type \<^verbatim>\<open>sqlite3.ErrNo\<close> (\<^verbatim>\<open>sqlite3.ErrNotFound\<close> is \<^verbatim>\<open>ErrNo(12)\<close>); a value
  of the driver's struct type \<^verbatim>\<open>sqlite3.Error\<close> with its result code and extended result
  code (what the driver returns for a failed statement); and any other error, by its text.
\<close>

datatype error =
    ErrNoUser
  | ErrNoState
  | ErrSqliteInternal
  | ErrSqliteUserAlreadyExists
  | SqlErrNoRows
  | SqliteErrNo int
  | SqliteError (Code: int) (ExtendedCode: int)
  | OtherError string

definition ErrNotFound :: error where
  \<comment> \<open>\<^verbatim>\<open>sqlite3.ErrNotFound = ErrNo(12)\<close>\<close>
  "ErrNotFound = SqliteErrNo 12"

definition errors_Is :: "error \<Rightarrow> error \<Rightarrow> bool" where
  \<comment> \<open>\<^verbatim>\<open>errors.Is(err, target)\<close>: none of the values above wraps another or has an
      \<^verbatim>\<open>Is\<close> method, so the chain is the value itself.\<close>
  "errors_Is err target = (err = target)"

definition errors_As_sqlite3_Error :: "error option \<Rightarrow> (int \<times> int) option" where
  \<comment> \<open>\<^verbatim>\<open>errors.As(err, &sqliteErr)\<close> with \<^verbatim>\<open>sqliteErr\<close> of type \<^verbatim>\<open>sqlite3.Error\<close>: the
      struct's codes when \<^verbatim>\<open>err\<close> is such a struct, \<open>None\<close> for \<^verbatim>\<open>nil\<close> and for every
      other error.\<close>
  "errors_As_sqlite3_Error err =
     (case err of
        Some (SqliteError c x) \<Rightarrow> Some (c, x)
      | _ \<Rightarrow> None)"

text \<open>
  \<^verbatim>\<open>oauth2.Token\<close>, the credential bundle, and \<^verbatim>\<open>domain.User\<close> and \<^verbatim>\<open>domain.OAuth2State\<close> as
  the source fills them. The expiry is a time stamp in seconds.
\<close>

record Token =
  AccessToken :: string
  TokenType :: string
  RefreshToken :: string
  Expiry :: int

record User =
  TelegramID :: int64
  FastmailToken :: "Token option"
  LanguageCode :: string

record OAuth2State =
  State :: string
  CodeVerifier :: string
  State_TelegramID :: int64

text \<open>
  Three functions of external libraries are parameters of the model:
  \<^item> \<open>valid\<close>: what \<^verbatim>\<open>(*oauth2.Token).Valid\<close> answers for a token that is not \<^verbatim>\<open>nil\<close>
    (an access token is there and the token has not expired at the time of the call);
  \<^item> \<open>marshal\<close>: \<^verbatim>\<open>json.Marshal\<close> on a \<^verbatim>\<open>*oauth2.Token\<close>;
  \<^item> \<open>unmarshal\<close>: \<^verbatim>\<open>json.Unmarshal\<close> into a \<^verbatim>\<open>*oauth2.Token\<close> that starts \<^verbatim>\<open>nil\<close>.
\<close>

record jsonlib =
  valid :: "Token \<Rightarrow> bool"
  marshal :: "Token option \<Rightarrow> error + string"
  unmarshal :: "string \<Rightarrow> error + Token option"

definition Valid :: "jsonlib \<Rightarrow> Token option \<Rightarrow> bool" where
  \<comment> \<open>\<^verbatim>\<open>t.Valid()\<close>: false on the \<^verbatim>\<open>nil\<close> token.\<close>
  "Valid L t = (case t of None \<Rightarrow> False | Some tok \<Rightarrow> valid L tok)"

section \<open>The storage under the adapter\<close>

text \<open>
  Modelled from the spec: the schema of the database (the migrations) and the SQL engine
  are not under src/. The persisted layout is two tables, \<^verbatim>\<open>users\<close> (identity, credential
  blob, language) and \<^verbatim>\<open>oauth2_states\<close> (nonce, PKCE verifier, owner identity); the identity
  is the primary key of \<^verbatim>\<open>users\<close> and the nonce the primary key of \<^verbatim>\<open>oauth2_states\<close>. A
  table is the list of its rows in insertion order. The credential column may hold
  \<^verbatim>\<open>NULL\<close> (the source scans it into an \<^verbatim>\<open>sql.NullString\<close>).

  Any statement can also fail for a reason of the engine's own (I/O, lock, corruption):
  \<open>faults\<close> is the environment's schedule, one entry per statement the adapter issues,
  \<open>Some e\<close> making that statement fail with \<open>e\<close> and change nothing. An empty schedule
  means no fault.
\<close>

record user_row =
  telegram_id :: int64
  fastmail_token :: "string option"
  lang :: string

record state_row =
  state :: string
  code_verifier :: string
  state_telegram_id :: int64

record sqlite_db =
  users :: "user_row list"
  oauth2_states :: "state_row list"
  faults :: "error option list"
  logger :: "string list"

definition next_fault :: "sqlite_db \<Rightarrow> error option \<times> sqlite_db" where
  "next_fault db =
     (case faults db of
        [] \<Rightarrow> (None, db)
      | f # fs \<Rightarrow> (f, db\<lparr>faults := fs\<rparr>))"

definition log_line :: "string \<Rightarrow> sqlite_db \<Rightarrow> sqlite_db" where
  \<comment> \<open>\<^verbatim>\<open>a.logger.Info\<close> and \<^verbatim>\<open>a.logger.Error\<close>: the message is appended to the log.\<close>
  "log_line msg db = db\<lparr>logger := logger db @ [msg]\<rparr>"

definition SQLITE_CONSTRAINT_PRIMARYKEY :: error where
  \<comment> \<open>result code 19 (\<^verbatim>\<open>SQLITE_CONSTRAINT\<close>), extended code \<open>19 + 6 * 256 = 1555\<close>\<close>
  "SQLITE_CONSTRAINT_PRIMARYKEY = SqliteError 19 1555"

definition exec_insert_user :: "int64 \<Rightarrow> string \<Rightarrow> sqlite_db \<Rightarrow> error option \<times> sqlite_db" where
  \<comment> \<open>\<^verbatim>\<open>INSERT INTO users (telegram_id, lang) VALUES (?, ?)\<close>\<close>
  "exec_insert_user tid l db =
     (case next_fault db of
        (Some e, db1) \<Rightarrow> (Some e, db1)
      | (None, db1) \<Rightarrow>
          if filter (\<lambda>r. telegram_id r = tid) (users db1) \<noteq> []
          then (Some SQLITE_CONSTRAINT_PRIMARYKEY, db1)
          else (None, db1\<lparr>users := users db1 @
                  [\<lparr>telegram_id = tid, fastmail_token = None, lang = l\<rparr>]\<rparr>))"

definition exec_update_token :: "string \<Rightarrow> int64 \<Rightarrow> sqlite_db \<Rightarrow> error option \<times> sqlite_db" where
  \<comment> \<open>\<^verbatim>\<open>UPDATE users SET fastmail_token = ? WHERE telegram_id = ?\<close>; no matching row is
      no error.\<close>
  "exec_update_token tok tid db =
     (case next_fault db of
        (Some e, db1) \<Rightarrow> (Some e, db1)
      | (None, db1) \<Rightarrow>
          (None, db1\<lparr>users :=
             map (\<lambda>r. if telegram_id r = tid then r\<lparr>fastmail_token := Some tok\<rparr> else r)
               (users db1)\<rparr>))"

definition exec_update_lang :: "string \<Rightarrow> int64 \<Rightarrow> sqlite_db \<Rightarrow> error option \<times> sqlite_db" where
  \<comment> \<open>\<^verbatim>\<open>UPDATE users SET lang = ? WHERE telegram_id = ?\<close>\<close>
  "exec_update_lang l tid db =
     (case next_fault db of
        (Some e, db1) \<Rightarrow> (Some e, db1)
      | (None, db1) \<Rightarrow>
          (None, db1\<lparr>users :=
             map (\<lambda>r. if telegram_id r = tid then r\<lparr>lang := l\<rparr> else r) (users db1)\<rparr>))"

definition query_user :: "int64 \<Rightarrow> sqlite_db \<Rightarrow> (error + user_row) \<times> sqlite_db" where
  \<comment> \<open>\<^verbatim>\<open>SELECT telegram_id, fastmail_token, lang FROM users WHERE telegram_id = ?\<close> through
      \<^verbatim>\<open>QueryRow\<close> and \<^verbatim>\<open>Scan\<close>: the first matching row, and \<^verbatim>\<open>sql.ErrNoRows\<close> when there is
      none.\<close>
  "query_user tid db =
     (case next_fault db of
        (Some e, db1) \<Rightarrow> (Inl e, db1)
      | (None, db1) \<Rightarrow>
          (case find (\<lambda>r. telegram_id r = tid) (users db1) of
             None \<Rightarrow> (Inl SqlErrNoRows, db1)
           | Some r \<Rightarrow> (Inr r, db1)))"

definition exec_insert_state :: "string \<Rightarrow> string \<Rightarrow> int64 \<Rightarrow> sqlite_db \<Rightarrow> error option \<times> sqlite_db" where
  \<comment> \<open>\<^verbatim>\<open>INSERT INTO oauth2_states (state, code_verifier, telegram_id) VALUES (?, ?, ?)\<close>\<close>
  "exec_insert_state st cv tid db =
     (case next_fault db of
        (Some e, db1) \<Rightarrow> (Some e, db1)
      | (None, db1) \<Rightarrow>
          if filter (\<lambda>r. state r = st) (oauth2_states db1) \<noteq> []
          then (Some SQLITE_CONSTRAINT_PRIMARYKEY, db1)
          else (None, db1\<lparr>oauth2_states := oauth2_states db1 @
                  [\<lparr>state = st, code_verifier = cv, state_telegram_id = tid\<rparr>]\<rparr>))"

definition query_state :: "string \<Rightarrow> sqlite_db \<Rightarrow> (error + state_row) \<times> sqlite_db" where
  \<comment> \<open>\<^verbatim>\<open>SELECT code_verifier, telegram_id FROM oauth2_states WHERE state = ?\<close> through
      \<^verbatim>\<open>QueryRow\<close> and \<^verbatim>\<open>Scan\<close>\<close>
  "query_state st db =
     (case next_fault db of
        (Some e, db1) \<Rightarrow> (Inl e, db1)
      | (None, db1) \<Rightarrow>
          (case find (\<lambda>r. state r = st) (oauth2_states db1) of
             None \<Rightarrow> (Inl SqlErrNoRows, db1)
           | Some r \<Rightarrow> (Inr r, db1)))"

section \<open>The adapter\<close>

definition CreateUser :: "int64 \<Rightarrow> string \<Rightarrow> sqlite_db \<Rightarrow> error option \<times> sqlite_db" where
  "CreateUser telegramID languageCode db =
     (case exec_insert_user telegramID languageCode db of (err, db1) \<Rightarrow>
        if (case errors_As_sqlite3_Error err of Some (c, x) \<Rightarrow> x = 1555 | None \<Rightarrow> False)
        then (Some ErrSqliteUserAlreadyExists, log_line ''Duplicate key value violation!'' db1)
        else if err \<noteq> None
        then (Some ErrSqliteInternal, log_line ''Error while creating a user!'' db1)
        else (None, db1))"

definition UpdateToken :: "int64 \<Rightarrow> string \<Rightarrow> sqlite_db \<Rightarrow> error option \<times> sqlite_db" where
  "UpdateToken telegramID fastmailToken db =
     (case exec_update_token fastmailToken telegramID db of (err, db1) \<Rightarrow>
        if err \<noteq> None
        then (Some ErrSqliteInternal, log_line ''Error while updating a token!'' db1)
        else (None, db1))"

definition UpdateLanguageCode :: "int64 \<Rightarrow> string \<Rightarrow> sqlite_db \<Rightarrow> error option \<times> sqlite_db" where
  "UpdateLanguageCode telegramID languageCode db =
     (case exec_update_lang languageCode telegramID db of (err, db1) \<Rightarrow>
        if err \<noteq> None
        then (Some ErrSqliteInternal, log_line ''Error while updating a language code!'' db1)
        else (None, db1))"

definition GetUser :: "jsonlib \<Rightarrow> int64 \<Rightarrow> sqlite_db \<Rightarrow> (error + User) \<times> sqlite_db" where
  "GetUser L telegramID db =
     (case query_user telegramID db of
        (Inl err, db1) \<Rightarrow>
          if errors_Is err ErrNotFound
          then (Inl ErrNoUser, db1)
          else (Inl ErrSqliteInternal, log_line ''Error while getting a user!'' db1)
      | (Inr row, db1) \<Rightarrow>
          (case fastmail_token row of
             None \<Rightarrow>
               (Inr \<lparr>TelegramID = telegram_id row, FastmailToken = None,
                     LanguageCode = lang row\<rparr>, db1)
           | Some tokenStr \<Rightarrow>
               (case unmarshal L tokenStr of
                  Inl err \<Rightarrow>
                    (Inl ErrSqliteInternal,
                     log_line ''Error while decoding a Fastmail token!'' db1)
                | Inr tok \<Rightarrow>
                    (Inr \<lparr>TelegramID = telegram_id row, FastmailToken = tok,
                          LanguageCode = lang row\<rparr>, db1))))"

definition CreateOAuth2State :: "string \<Rightarrow> string \<Rightarrow> int64 \<Rightarrow> sqlite_db \<Rightarrow> error option \<times> sqlite_db" where
  "CreateOAuth2State st codeVerifier telegramID db =
     (case exec_insert_state st codeVerifier telegramID db of (err, db1) \<Rightarrow>
        if err \<noteq> None
        then (Some ErrSqliteInternal, log_line ''Error while creating an OAuth2 state!'' db1)
        else (None, db1))"

definition GetOAuth2State :: "string \<Rightarrow> sqlite_db \<Rightarrow> (error + OAuth2State) \<times> sqlite_db" where
  "GetOAuth2State st db =
     (case query_state st db of
        (Inl err, db1) \<Rightarrow>
          if errors_Is err ErrNotFound
          then (Inl ErrNoState, db1)
          else (Inl ErrSqliteInternal, log_line ''Error while getting an OAuth2 state!'' db1)
      | (Inr row, db1) \<Rightarrow>
          (Inr \<lparr>State = st, CodeVerifier = code_verifier row,
                State_TelegramID = state_telegram_id row\<rparr>, db1))"

section \<open>The token source\<close>

text \<open>
  The token source holds a \<^verbatim>\<open>domain.Database\<close> and an \<^verbatim>\<open>oauth2.TokenSource\<close>, both
  interfaces: any implementation, as a function on a state \<open>'s\<close> that the implementations
  share. Of the database's methods the token source calls two.

  The calls made through the two interfaces are recorded in a trace that is carried
  beside the state, so that how often the refresher ran and what was written can be
  stated.
\<close>

record 's Database =
  db_GetUser :: "int64 \<Rightarrow> 's \<Rightarrow> (error + User) \<times> 's"
  db_UpdateToken :: "int64 \<Rightarrow> string \<Rightarrow> 's \<Rightarrow> error option \<times> 's"

record 's tokenSource =
  database :: "'s Database"
  baseTokenSource :: "'s \<Rightarrow> (error + Token option) \<times> 's"
  telegramID :: int64

datatype call = CallGetUser int64 | CallBaseToken | CallUpdateToken int64 string

definition database_GetUser ::
  "'s tokenSource \<Rightarrow> int64 \<Rightarrow> 's \<times> call list \<Rightarrow> (error + User) \<times> 's \<times> call list" where
  \<comment> \<open>\<^verbatim>\<open>ts.database.GetUser(id)\<close>\<close>
  "database_GetUser ts tid w =
     (case db_GetUser (database ts) tid (fst w) of (r, s1) \<Rightarrow>
        (r, s1, snd w @ [CallGetUser tid]))"

definition database_UpdateToken ::
  "'s tokenSource \<Rightarrow> int64 \<Rightarrow> string \<Rightarrow> 's \<times> call list \<Rightarrow> error option \<times> 's \<times> call list" where
  \<comment> \<open>\<^verbatim>\<open>ts.database.UpdateToken(id, token)\<close>\<close>
  "database_UpdateToken ts tid b w =
     (case db_UpdateToken (database ts) tid b (fst w) of (r, s1) \<Rightarrow>
        (r, s1, snd w @ [CallUpdateToken tid b]))"

definition baseTokenSource_Token ::
  "'s tokenSource \<Rightarrow> 's \<times> call list \<Rightarrow> (error + Token option) \<times> 's \<times> call list" where
  \<comment> \<open>\<^verbatim>\<open>ts.baseTokenSource.Token()\<close>\<close>
  "baseTokenSource_Token ts w =
     (case baseTokenSource ts (fst w) of (r, s1) \<Rightarrow>
        (r, s1, snd w @ [CallBaseToken]))"

definition Token ::
  "jsonlib \<Rightarrow> 's tokenSource \<Rightarrow> 's \<times> call list \<Rightarrow> (error + Token option) \<times> 's \<times> call list" where
  "Token L ts w =
     (case database_GetUser ts (telegramID ts) w of
        (Inl err, w1) \<Rightarrow> (Inl err, w1)
      | (Inr user, w1) \<Rightarrow>
          if Valid L (FastmailToken user)
          then (Inr (FastmailToken user), w1)
          else
            (case baseTokenSource_Token ts w1 of
               (Inl err, w2) \<Rightarrow> (Inl err, w2)
             | (Inr token, w2) \<Rightarrow>
                 (case marshal L token of
                    Inl err \<Rightarrow> (Inl err, w2)
                  | Inr b \<Rightarrow>
                      (case database_UpdateToken ts (telegramID ts) b w2 of
                         (Some err, w3) \<Rightarrow> (Inl err, w3)
                       | (None, w3) \<Rightarrow> (Inr token, w3)))))"

definition adapter :: "jsonlib \<Rightarrow> sqlite_db Database" where
  \<comment> \<open>the adapter as a \<^verbatim>\<open>domain.Database\<close>\<close>
  "adapter L = \<lparr>db_GetUser = GetUser L, db_UpdateToken = UpdateToken\<rparr>"

definition NewTokenSource ::
  "jsonlib \<Rightarrow> (sqlite_db \<Rightarrow> (error + Token option) \<times> sqlite_db) \<Rightarrow> int64 \<Rightarrow> sqlite_db tokenSource" where
  "NewTokenSource L base tid =
     \<lparr>database = adapter L, baseTokenSource = base, telegramID = tid\<rparr>"

definition refreshes :: "call list \<Rightarrow> nat" where
  \<comment> \<open>how many calls of the base refresher a trace holds\<close>
  "refreshes tr = length (filter (\<lambda>c. c = CallBaseToken) tr)"

fun is_write :: "call \<Rightarrow> bool" where
  "is_write (CallUpdateToken tid b) = True"
| "is_write c = False"

definition writes :: "call list \<Rightarrow> call list" where
  \<comment> \<open>the \<^verbatim>\<open>UpdateToken\<close> calls of a trace\<close>
  "writes tr = filter is_write tr"

section \<open>The dispatch loop\<close>

text \<open>
  An update of the chat platform, with the fields the loop reads. The sender \<^verbatim>\<open>From\<close> is
  a pointer in the client library. \<^verbatim>\<open>IsCommand()\<close> and \<^verbatim>\<open>Command()\<close> are methods of the
  client library that read the message's text and entities; the message of the model
  carries their answers.
\<close>

record tg_User =
  User_LanguageCode :: string

record tg_Message =
  Message_From :: "tg_User option"
  IsCommand :: bool
  Command :: string

record tg_CallbackQuery =
  CallbackQuery_From :: "tg_User option"
  Data :: string

record tg_InlineQuery =
  InlineQuery_From :: "tg_User option"
  Query :: string

record Update =
  Message :: "tg_Message option"
  CallbackQuery :: "tg_CallbackQuery option"
  InlineQuery :: "tg_InlineQuery option"

definition CallbackData :: "Update \<Rightarrow> string" where
  \<comment> \<open>\<^verbatim>\<open>update.CallbackData()\<close> of the client library\<close>
  "CallbackData update = (case CallbackQuery update of Some q \<Rightarrow> Data q | None \<Rightarrow> [])"

fun strings_Split :: "string \<Rightarrow> char \<Rightarrow> string list" where
  \<comment> \<open>\<^verbatim>\<open>strings.Split(s, sep)\<close> for a separator of one byte\<close>
  "strings_Split [] sep = [[]]"
| "strings_Split (c # cs) sep =
     (if c = sep then [] # strings_Split cs sep
      else (case strings_Split cs sep of
              [] \<Rightarrow> [[c]]
            | x # xs \<Rightarrow> (c # x) # xs))"

datatype Localizer = NewLocalizer string

text \<open>
  The six handlers are methods of \<^verbatim>\<open>delivery\<close> defined outside the source given here:
  a parameter \<open>H\<close>, any functions from the localizer, the update and the state of the
  world (the chat platform, the mail provider, the database) to an error result and the
  new state of the world.
\<close>

datatype handler =
    startCommand
  | anyOtherCommand
  | generateMaskedEmail
  | enableMaskedEmail
  | generateMaskedEmailWithInlineButton
  | answerInlineQueryWithEmail

type_synonym 'w handlers = "handler \<Rightarrow> Localizer \<Rightarrow> Update \<Rightarrow> 'w \<Rightarrow> error option \<times> 'w"

text \<open>
  The state of the loop: the world the handlers act on, what \<^verbatim>\<open>d.logger.Error\<close> has
  written (message and error), and a record of the handler calls made so far (handler,
  update, and what the handler returned).
\<close>

record 'w serve_state =
  world :: 'w
  errlog :: "(string \<times> error) list"
  invoked :: "(handler \<times> Update \<times> error option) list"

datatype panic = NilPointerDereference | IndexOutOfRange

definition handle ::
  "'w handlers \<Rightarrow> handler \<Rightarrow> string \<Rightarrow> Localizer \<Rightarrow> Update \<Rightarrow> 'w serve_state \<Rightarrow> 'w serve_state" where
  \<comment> \<open>\<^verbatim>\<open>if err := d.h(localizer, update); err != nil { d.logger.Error(msg, zap.Error(err)) }\<close>\<close>
  "handle H h msg localizer update st =
     (case H h localizer update (world st) of
        (Some err, w1) \<Rightarrow>
          st\<lparr>world := w1, errlog := errlog st @ [(msg, err)],
             invoked := invoked st @ [(h, update, Some err)]\<rparr>
      | (None, w1) \<Rightarrow>
          st\<lparr>world := w1, invoked := invoked st @ [(h, update, None)]\<rparr>)"

definition step :: "'w handlers \<Rightarrow> Update \<Rightarrow> 'w serve_state \<Rightarrow> panic + 'w serve_state" where
  \<comment> \<open>the body of the loop for one update\<close>
  "step H update st =
     (case Message update of
        Some m \<Rightarrow>
          (case Message_From m of
             None \<Rightarrow> Inl NilPointerDereference
           | Some sender \<Rightarrow>
               (let localizer = NewLocalizer (User_LanguageCode sender) in
                if IsCommand m
                then
                  (if Command m = ''start''
                   then Inr (handle H startCommand ''Error while handling command!''
                               localizer update st)
                   else Inr (handle H anyOtherCommand ''Error while handling command!''
                               localizer update st))
                else Inr (handle H generateMaskedEmail ''Error while handling a link!''
                            localizer update st)))
      | None \<Rightarrow>
          (case CallbackQuery update of
             Some q \<Rightarrow>
               (case CallbackQuery_From q of
                  None \<Rightarrow> Inl NilPointerDereference
                | Some sender \<Rightarrow>
                    (let localizer = NewLocalizer (User_LanguageCode sender);
                         data = strings_Split (CallbackData update) (CHR '':'')
                     in case data of
                          [] \<Rightarrow> Inl IndexOutOfRange
                        | d0 # ds \<Rightarrow>
                            if d0 = ''id''
                            then Inr (handle H enableMaskedEmail
                                        ''Error while enabling a masked email!''
                                        localizer update st)
                            else if d0 = ''prefix''
                            then Inr (handle H generateMaskedEmailWithInlineButton
                                        ''Error while generating a masked email!''
                                        localizer update st)
                            else Inr st))
           | None \<Rightarrow>
               (case InlineQuery update of
                  Some q \<Rightarrow>
                    (case InlineQuery_From q of
                       None \<Rightarrow> Inl NilPointerDereference
                     | Some sender \<Rightarrow>
                         (let localizer = NewLocalizer (User_LanguageCode sender) in
                          Inr (handle H answerInlineQueryWithEmail
                                 ''Error while trying to answer inline query!''
                                 localizer update st)))
                | None \<Rightarrow> Inr st)))"

fun serve_loop :: "'w handlers \<Rightarrow> Update list \<Rightarrow> 'w serve_state \<Rightarrow> panic + 'w serve_state" where
  \<comment> \<open>\<^verbatim>\<open>for update := range updates\<close>: the list holds what the channel delivers until it
      is closed\<close>
  "serve_loop H [] st = Inr st"
| "serve_loop H (update # updates) st =
     (case step H update st of
        Inl p \<Rightarrow> Inl p
      | Inr st1 \<Rightarrow> serve_loop H updates st1)"







section \<open>Concrete inputs\<close>

text \<open>
  Stand-ins for the external parts, used where a property is run on a concrete input: a
  library whose clock stands at 100, whose serialized form of a token is its access
  token, and whose decoder gives the token \<open>''stale''\<close> the expiry 50 and any other the
  expiry 200; a database of three users; a base refresher that always succeeds; handlers
  that count their calls in the world and always succeed, or always fail.
\<close>

definition test_lib :: jsonlib where
  "test_lib =
     \<lparr>valid = (\<lambda>t. AccessToken t \<noteq> [] \<and> 100 < Expiry t),
      marshal = (\<lambda>t. case t of None \<Rightarrow> Inr ''null'' | Some tok \<Rightarrow> Inr (AccessToken tok)),
      unmarshal = (\<lambda>s. if s = ''null'' then Inr None
                        else Inr (Some \<lparr>AccessToken = s, TokenType = ''Bearer'',
                                        RefreshToken = [],
                                        Expiry = (if s = ''stale'' then 50 else 200)\<rparr>))\<rparr>"

definition test_db :: "error option list \<Rightarrow> sqlite_db" where
  "test_db fs =
     \<lparr>users = [\<lparr>telegram_id = 7, fastmail_token = Some ''fresh'', lang = ''en''\<rparr>,
               \<lparr>telegram_id = 8, fastmail_token = Some ''stale'', lang = ''de''\<rparr>,
               \<lparr>telegram_id = 9, fastmail_token = None, lang = ''ru''\<rparr>],
      oauth2_states = [], faults = fs, logger = []\<rparr>"

definition empty_db :: sqlite_db where
  "empty_db = \<lparr>users = [], oauth2_states = [], faults = [], logger = []\<rparr>"

definition renewed :: Token where
  "renewed = \<lparr>AccessToken = ''renewed'', TokenType = ''Bearer'', RefreshToken = ''r'',
              Expiry = 300\<rparr>"

definition test_base :: "sqlite_db \<Rightarrow> (error + Token option) \<times> sqlite_db" where
  "test_base db = (Inr (Some renewed), db)"


definition failing :: "nat handlers" where
  "failing h localizer update w = (Some (OtherError ''handler failed''), Suc w)"

definition english :: tg_User where
  "english = \<lparr>User_LanguageCode = ''en''\<rparr>"


definition inline_update :: Update where
  "inline_update =
     \<lparr>Message = None, CallbackQuery = None,
      InlineQuery = Some \<lparr>InlineQuery_From = Some english, Query = ''shop''\<rparr>\<rparr>"



definition bare_update :: Update where
  "bare_update = \<lparr>Message = None, CallbackQuery = None, InlineQuery = None\<rparr>"

definition idle :: "nat serve_state" where
  "idle = \<lparr>world = 0, errlog = [], invoked = []\<rparr>"

section \<open>Properties of the token source\<close>

lemma Token_GetUser_fails:
  assumes "db_GetUser (database ts) (telegramID ts) s = (Inl err, s1)"
  shows "Token L ts (s, tr) = (Inl err, s1, tr @ [CallGetUser (telegramID ts)])"
  using assms by (simp add: Token_def database_GetUser_def)

lemma Token_valid:
  assumes "db_GetUser (database ts) (telegramID ts) s = (Inr user, s1)"
      and "Valid L (FastmailToken user)"
  shows "Token L ts (s, tr) =
           (Inr (FastmailToken user), s1, tr @ [CallGetUser (telegramID ts)])"
  using assms by (simp add: Token_def database_GetUser_def)

text \<open>The path of lines 199 to 213, once the stored credential is not valid.\<close>

lemma Token_refresh:
  assumes "db_GetUser (database ts) (telegramID ts) s = (Inr user, s1)"
      and "\<not> Valid L (FastmailToken user)"
  shows "Token L ts (s, tr) =
     (case baseTokenSource ts s1 of
        (Inl err, s2) \<Rightarrow> (Inl err, s2, tr @ [CallGetUser (telegramID ts), CallBaseToken])
      | (Inr token, s2) \<Rightarrow>
          (case marshal L token of
             Inl err \<Rightarrow> (Inl err, s2, tr @ [CallGetUser (telegramID ts), CallBaseToken])
           | Inr b \<Rightarrow>
               (case db_UpdateToken (database ts) (telegramID ts) b s2 of
                  (Some err, s3) \<Rightarrow>
                    (Inl err, s3, tr @ [CallGetUser (telegramID ts), CallBaseToken,
                                        CallUpdateToken (telegramID ts) b])
                | (None, s3) \<Rightarrow>
                    (Inr token, s3, tr @ [CallGetUser (telegramID ts), CallBaseToken,
                                          CallUpdateToken (telegramID ts) b]))))"
  using assms
  by (simp add: Token_def database_GetUser_def baseTokenSource_Token_def
      database_UpdateToken_def split: prod.splits sum.splits option.splits)

lemma Token_refreshes_once:
  assumes "db_GetUser (database ts) (telegramID ts) s = (Inr user, s1)"
      and "\<not> Valid L (FastmailToken user)"
  shows "refreshes (snd (snd (Token L ts (s, tr)))) = Suc (refreshes tr)"
  using assms
  by (simp add: Token_refresh refreshes_def split: prod.splits sum.splits option.splits)

lemma not_Valid_iff:
  "(\<not> Valid L tok) = (tok = None \<or> (\<exists>t. tok = Some t \<and> \<not> valid L t))"
  by (cases tok) (simp_all add: Valid_def)

text \<open>The adapter's \<^verbatim>\<open>GetUser\<close> reads: it leaves both tables as they are.\<close>

lemma GetUser_tables:
  "users (snd (GetUser L tid db)) = users db \<and>
   oauth2_states (snd (GetUser L tid db)) = oauth2_states db"
  by (simp add: GetUser_def query_user_def next_fault_def log_line_def
      split: list.splits option.splits sum.splits)

text \<open>
  C1. When the user that \<^verbatim>\<open>GetUser\<close> returns holds a credential that is present and valid
  (not expired), \<^verbatim>\<open>Token\<close> returns that credential; the only call it makes is the one
  \<^verbatim>\<open>GetUser\<close>, so the base refresher is not called and nothing is written, and the state is
  the one \<^verbatim>\<open>GetUser\<close> left. With the adapter as the database, the \<^verbatim>\<open>users\<close> table is
  unchanged.
\<close>

theorem Token_returns_valid_stored_credential:
  assumes "db_GetUser (database ts) (telegramID ts) s = (Inr user, s1)"
      and "FastmailToken user = Some t"
      and "valid L t"
  shows "Token L ts (s, tr) = (Inr (Some t), s1, tr @ [CallGetUser (telegramID ts)])
       \<and> refreshes (snd (snd (Token L ts (s, tr)))) = refreshes tr
       \<and> writes (snd (snd (Token L ts (s, tr)))) = writes tr
       \<and> (database ts = adapter L \<longrightarrow> users (fst (snd (Token L ts (s, tr)))) = users s)"
proof -
  from assms(2,3) have v: "Valid L (FastmailToken user)"
    by (simp add: Valid_def)
  have eq: "Token L ts (s, tr) = (Inr (Some t), s1, tr @ [CallGetUser (telegramID ts)])"
    using Token_valid [OF assms(1) v] assms(2) by simp
  have r: "refreshes (snd (snd (Token L ts (s, tr)))) = refreshes tr"
    by (simp add: eq refreshes_def)
  have w: "writes (snd (snd (Token L ts (s, tr)))) = writes tr"
    by (simp add: eq writes_def)
  have a: "database ts = adapter L \<longrightarrow> users (fst (snd (Token L ts (s, tr)))) = users s"
  proof
    assume "database ts = adapter L"
    with assms(1) have "snd (GetUser L (telegramID ts) s) = s1"
      by (simp add: adapter_def)
    with GetUser_tables [of L "telegramID ts" s]
    show "users (fst (snd (Token L ts (s, tr)))) = users s"
      by (simp add: eq)
  qed
  from eq r w a show ?thesis by blast
qed

theorem Token_returns_valid_stored_credential_witness:
  "Token test_lib (NewTokenSource test_lib test_base 7) (test_db [], []) =
     (Inr (Some \<lparr>AccessToken = ''fresh'', TokenType = ''Bearer'', RefreshToken = [],
                 Expiry = 200\<rparr>),
      test_db [], [CallGetUser 7])
   \<and> refreshes (snd (snd (Token test_lib (NewTokenSource test_lib test_base 7)
                            (test_db [], [])))) = 0"
proof -
  let ?ts = "NewTokenSource test_lib test_base 7"
  let ?t = "\<lparr>AccessToken = ''fresh'', TokenType = ''Bearer'', RefreshToken = [],
             Expiry = 200\<rparr>"
  have g: "db_GetUser (database ?ts) (telegramID ?ts) (test_db []) =
             (Inr \<lparr>TelegramID = 7, FastmailToken = Some ?t, LanguageCode = ''en''\<rparr>,
              test_db [])"
    by (simp add: NewTokenSource_def adapter_def GetUser_def query_user_def next_fault_def
        test_db_def test_lib_def)
  have v: "valid test_lib ?t"
    by (simp add: test_lib_def)
  from Token_returns_valid_stored_credential [OF g _ v, of "[]"]
  show ?thesis
    by (simp add: NewTokenSource_def refreshes_def)
qed

text \<open>
  C2. When the user that \<^verbatim>\<open>GetUser\<close> returns holds no credential, or one that is not valid
  (expired), \<^verbatim>\<open>Token\<close> calls the base refresher exactly once, whatever happens next; and
  when the refresher returns a credential, it is serialized and \<^verbatim>\<open>UpdateToken\<close> succeeds,
  \<^verbatim>\<open>Token\<close> has made exactly one \<^verbatim>\<open>UpdateToken\<close> call, with the serialized credential, and
  returns the refreshed credential.
\<close>

theorem Token_refreshes_and_persists:
  assumes "db_GetUser (database ts) (telegramID ts) s = (Inr user, s1)"
      and "FastmailToken user = None \<or> (\<exists>t. FastmailToken user = Some t \<and> \<not> valid L t)"
  shows "refreshes (snd (snd (Token L ts (s, tr)))) = Suc (refreshes tr)
       \<and> (\<forall>token s2 b s3.
             baseTokenSource ts s1 = (Inr token, s2) \<and> marshal L token = Inr b \<and>
             db_UpdateToken (database ts) (telegramID ts) b s2 = (None, s3)
             \<longrightarrow> Token L ts (s, tr) =
                   (Inr token, s3,
                    tr @ [CallGetUser (telegramID ts), CallBaseToken,
                          CallUpdateToken (telegramID ts) b])
                 \<and> writes (snd (snd (Token L ts (s, tr)))) =
                     writes tr @ [CallUpdateToken (telegramID ts) b])"
proof -
  from assms(2) have nv: "\<not> Valid L (FastmailToken user)"
    by (simp add: not_Valid_iff)
  have once: "refreshes (snd (snd (Token L ts (s, tr)))) = Suc (refreshes tr)"
    by (rule Token_refreshes_once [OF assms(1) nv])
  have persisted: "\<forall>token s2 b s3.
           baseTokenSource ts s1 = (Inr token, s2) \<and> marshal L token = Inr b \<and>
           db_UpdateToken (database ts) (telegramID ts) b s2 = (None, s3)
           \<longrightarrow> Token L ts (s, tr) =
                 (Inr token, s3,
                  tr @ [CallGetUser (telegramID ts), CallBaseToken,
                        CallUpdateToken (telegramID ts) b])
               \<and> writes (snd (snd (Token L ts (s, tr)))) =
                   writes tr @ [CallUpdateToken (telegramID ts) b]"
    by (simp add: Token_refresh [OF assms(1) nv] writes_def)
  from once persisted show ?thesis by blast
qed

theorem Token_refreshes_and_persists_witness:
  "Token test_lib (NewTokenSource test_lib test_base 8) (test_db [], []) =
     (Inr (Some renewed),
      (test_db [])\<lparr>users :=
         [\<lparr>telegram_id = 7, fastmail_token = Some ''fresh'', lang = ''en''\<rparr>,
          \<lparr>telegram_id = 8, fastmail_token = Some ''renewed'', lang = ''de''\<rparr>,
          \<lparr>telegram_id = 9, fastmail_token = None, lang = ''ru''\<rparr>]\<rparr>,
      [CallGetUser 8, CallBaseToken, CallUpdateToken 8 ''renewed''])
   \<and> refreshes (snd (snd (Token test_lib (NewTokenSource test_lib test_base 8)
                            (test_db [], [])))) = 1"
proof -
  let ?ts = "NewTokenSource test_lib test_base 8"
  let ?t = "\<lparr>AccessToken = ''stale'', TokenType = ''Bearer'', RefreshToken = [],
             Expiry = 50\<rparr>"
  let ?user = "\<lparr>TelegramID = 8, FastmailToken = Some ?t, LanguageCode = ''de''\<rparr>"
  let ?db = "(test_db [])\<lparr>users :=
         [\<lparr>telegram_id = 7, fastmail_token = Some ''fresh'', lang = ''en''\<rparr>,
          \<lparr>telegram_id = 8, fastmail_token = Some ''renewed'', lang = ''de''\<rparr>,
          \<lparr>telegram_id = 9, fastmail_token = None, lang = ''ru''\<rparr>]\<rparr>"
  have g: "db_GetUser (database ?ts) (telegramID ?ts) (test_db []) = (Inr ?user, test_db [])"
    by (simp add: NewTokenSource_def adapter_def GetUser_def query_user_def next_fault_def
        test_db_def test_lib_def)
  have nv: "FastmailToken ?user = None \<or>
            (\<exists>t. FastmailToken ?user = Some t \<and> \<not> valid test_lib t)"
    by (simp add: test_lib_def)
  have b: "baseTokenSource ?ts (test_db []) = (Inr (Some renewed), test_db [])"
    by (simp add: NewTokenSource_def test_base_def)
  have m: "marshal test_lib (Some renewed) = Inr ''renewed''"
    by (simp add: test_lib_def renewed_def)
  have u: "db_UpdateToken (database ?ts) (telegramID ?ts) ''renewed'' (test_db []) = (None, ?db)"
    by (simp add: NewTokenSource_def adapter_def UpdateToken_def exec_update_token_def
        next_fault_def test_db_def)
  from Token_refreshes_and_persists [OF g nv, of "[]"] b m u
  show ?thesis
    by (simp add: NewTokenSource_def refreshes_def)
qed

text \<open>
  C3. When the stored credential is not valid, the base refresher returns a credential,
  it is serialized, and \<^verbatim>\<open>UpdateToken\<close> then fails, \<^verbatim>\<open>Token\<close> returns that failure: its
  result is an error and no credential, the refreshed one included.
\<close>

theorem Token_fails_when_persistence_fails:
  assumes "db_GetUser (database ts) (telegramID ts) s = (Inr user, s1)"
      and "\<not> Valid L (FastmailToken user)"
      and "baseTokenSource ts s1 = (Inr token, s2)"
      and "marshal L token = Inr b"
      and "db_UpdateToken (database ts) (telegramID ts) b s2 = (Some err, s3)"
  shows "fst (Token L ts (s, tr)) = Inl err \<and> fst (Token L ts (s, tr)) \<noteq> Inr token"
  using assms by (simp add: Token_refresh)

theorem Token_fails_when_persistence_fails_witness:
  "fst (Token test_lib (NewTokenSource test_lib test_base 8)
          (test_db [None, Some (OtherError ''disk I/O error'')], [])) =
     Inl ErrSqliteInternal"
proof -
  let ?ts = "NewTokenSource test_lib test_base 8"
  let ?t = "\<lparr>AccessToken = ''stale'', TokenType = ''Bearer'', RefreshToken = [],
             Expiry = 50\<rparr>"
  let ?user = "\<lparr>TelegramID = 8, FastmailToken = Some ?t, LanguageCode = ''de''\<rparr>"
  let ?db1 = "test_db [Some (OtherError ''disk I/O error'')]"
  have g: "db_GetUser (database ?ts) (telegramID ?ts)
             (test_db [None, Some (OtherError ''disk I/O error'')]) = (Inr ?user, ?db1)"
    by (simp add: NewTokenSource_def adapter_def GetUser_def query_user_def next_fault_def
        test_db_def test_lib_def)
  have nv: "\<not> Valid test_lib (FastmailToken ?user)"
    by (simp add: Valid_def test_lib_def)
  have b: "baseTokenSource ?ts ?db1 = (Inr (Some renewed), ?db1)"
    by (simp add: NewTokenSource_def test_base_def)
  have m: "marshal test_lib (Some renewed) = Inr ''renewed''"
    by (simp add: test_lib_def renewed_def)
  have u: "db_UpdateToken (database ?ts) (telegramID ?ts) ''renewed'' ?db1 =
             (Some ErrSqliteInternal, log_line ''Error while updating a token!'' (test_db []))"
    by (simp add: NewTokenSource_def adapter_def UpdateToken_def exec_update_token_def
        next_fault_def test_db_def)
  from Token_fails_when_persistence_fails [OF g nv b m u, of "[]"]
  show ?thesis by simp
qed

text \<open>
  C4. When the call of \<^verbatim>\<open>GetUser\<close> fails, \<^verbatim>\<open>Token\<close> returns that same error; the only call
  it has made is the one \<^verbatim>\<open>GetUser\<close>, so the base refresher is not called and nothing is
  written, and the state is the one \<^verbatim>\<open>GetUser\<close> left. With the adapter as the database,
  the \<^verbatim>\<open>users\<close> table is unchanged.
\<close>

theorem Token_propagates_GetUser_failure:
  assumes "db_GetUser (database ts) (telegramID ts) s = (Inl err, s1)"
  shows "Token L ts (s, tr) = (Inl err, s1, tr @ [CallGetUser (telegramID ts)])
       \<and> refreshes (snd (snd (Token L ts (s, tr)))) = refreshes tr
       \<and> writes (snd (snd (Token L ts (s, tr)))) = writes tr
       \<and> (database ts = adapter L \<longrightarrow> users (fst (snd (Token L ts (s, tr)))) = users s)"
proof -
  have eq: "Token L ts (s, tr) = (Inl err, s1, tr @ [CallGetUser (telegramID ts)])"
    by (rule Token_GetUser_fails [OF assms])
  have r: "refreshes (snd (snd (Token L ts (s, tr)))) = refreshes tr"
    by (simp add: eq refreshes_def)
  have w: "writes (snd (snd (Token L ts (s, tr)))) = writes tr"
    by (simp add: eq writes_def)
  have a: "database ts = adapter L \<longrightarrow> users (fst (snd (Token L ts (s, tr)))) = users s"
  proof
    assume "database ts = adapter L"
    with assms have "snd (GetUser L (telegramID ts) s) = s1"
      by (simp add: adapter_def)
    with GetUser_tables [of L "telegramID ts" s]
    show "users (fst (snd (Token L ts (s, tr)))) = users s"
      by (simp add: eq)
  qed
  from eq r w a show ?thesis by blast
qed

theorem Token_propagates_GetUser_failure_witness:
  "Token test_lib (NewTokenSource test_lib test_base 7)
     (test_db [Some (OtherError ''database is locked'')], []) =
     (Inl ErrSqliteInternal, log_line ''Error while getting a user!'' (test_db []),
      [CallGetUser 7])"
proof -
  let ?ts = "NewTokenSource test_lib test_base 7"
  have g: "db_GetUser (database ?ts) (telegramID ?ts)
             (test_db [Some (OtherError ''database is locked'')]) =
             (Inl ErrSqliteInternal, log_line ''Error while getting a user!'' (test_db []))"
    by (simp add: NewTokenSource_def adapter_def GetUser_def query_user_def next_fault_def
        test_db_def errors_Is_def ErrNotFound_def)
  from Token_propagates_GetUser_failure [OF g, of test_lib "[]"]
  show ?thesis
    by (simp add: NewTokenSource_def)
qed

section \<open>Properties of the adapter\<close>

lemma distinct_filter_one:
  "distinct (map f xs) \<Longrightarrow> filter (\<lambda>r. f r = k) xs \<noteq> [] \<Longrightarrow>
   length (filter (\<lambda>r. f r = k) xs) = 1"
proof (induction xs)
  case Nil
  then show ?case by simp
next
  case (Cons x xs)
  show ?case
  proof (cases "f x = k")
    case True
    with Cons.prems have "k \<notin> f ` set xs"
      by simp
    then have "filter (\<lambda>r. f r = k) xs = []"
      by (auto simp: filter_empty_conv image_iff)
    with True show ?thesis by simp
  next
    case False
    with Cons show ?thesis by simp
  qed
qed

lemma find_append_new:
  "filter P xs = [] \<Longrightarrow> P x \<Longrightarrow> find P (xs @ [x]) = Some x"
  by (induction xs) (auto split: if_splits)

text \<open>
  What the lookups do when the row is missing and the engine reports no fault:
  \<^verbatim>\<open>Scan\<close> returns \<^verbatim>\<open>sql.ErrNoRows\<close>, the test against \<^verbatim>\<open>sqlite3.ErrNotFound\<close> is false, and
  the result is \<^verbatim>\<open>ErrSqliteInternal\<close>. The branches that return \<^verbatim>\<open>ErrNoUser\<close> and
  \<^verbatim>\<open>ErrNoState\<close> are taken only when the engine itself fails with \<^verbatim>\<open>ErrNo(12)\<close>.
\<close>

lemma GetUser_missing:
  assumes "faults db = []" and "find (\<lambda>r. telegram_id r = tid) (users db) = None"
  shows "GetUser L tid db = (Inl ErrSqliteInternal, log_line ''Error while getting a user!'' db)"
  using assms
  by (simp add: GetUser_def query_user_def next_fault_def errors_Is_def ErrNotFound_def)

lemma GetUser_ErrNoUser_only_by_fault:
  assumes "fst (GetUser L tid db) = Inl ErrNoUser"
  shows "\<exists>fs. faults db = Some (SqliteErrNo 12) # fs"
  using assms
  by (auto simp: GetUser_def query_user_def next_fault_def errors_Is_def ErrNotFound_def
      split: list.splits option.splits sum.splits if_splits)

lemma GetUser_errors:
  assumes "fst (GetUser L tid db) = Inl e"
  shows "e = ErrNoUser \<or> e = ErrSqliteInternal"
  using assms
  by (auto simp: GetUser_def query_user_def next_fault_def
      split: list.splits option.splits sum.splits if_splits)

lemma GetUser_existing:
  assumes "faults db = []" and "find (\<lambda>r. telegram_id r = tid) (users db) = Some row"
      and "case fastmail_token row of None \<Rightarrow> tok = None | Some str \<Rightarrow> unmarshal L str = Inr tok"
  shows "GetUser L tid db =
           (Inr \<lparr>TelegramID = telegram_id row, FastmailToken = tok,
                 LanguageCode = lang row\<rparr>, db)"
  using assms
  by (simp add: GetUser_def query_user_def next_fault_def split: option.splits)

lemma GetOAuth2State_missing:
  assumes "faults db = []" and "find (\<lambda>r. state r = st) (oauth2_states db) = None"
  shows "GetOAuth2State st db =
           (Inl ErrSqliteInternal, log_line ''Error while getting an OAuth2 state!'' db)"
  using assms
  by (simp add: GetOAuth2State_def query_state_def next_fault_def errors_Is_def ErrNotFound_def)

lemma GetOAuth2State_ErrNoState_only_by_fault:
  assumes "fst (GetOAuth2State st db) = Inl ErrNoState"
  shows "\<exists>fs. faults db = Some (SqliteErrNo 12) # fs"
  using assms
  by (auto simp: GetOAuth2State_def query_state_def next_fault_def errors_Is_def
      ErrNotFound_def split: list.splits option.splits sum.splits if_splits)

text \<open>The round trip: a nonce that was created is read back with its verifier and owner.\<close>

lemma CreateOAuth2State_then_Get:
  assumes "faults db = []" and "CreateOAuth2State st cv tid db = (None, db1)"
  shows "GetOAuth2State st db1 =
           (Inr \<lparr>State = st, CodeVerifier = cv, State_TelegramID = tid\<rparr>, db1)"
  using assms
  by (auto simp: CreateOAuth2State_def exec_insert_state_def GetOAuth2State_def
      query_state_def next_fault_def find_append_new split: if_splits)

text \<open>
  C5. The first half of the claim fails on the code: for a nonce that was never created,
  on an empty database and with no fault of the engine, \<^verbatim>\<open>GetOAuth2State\<close> returns
  \<^verbatim>\<open>ErrSqliteInternal\<close>, not \<^verbatim>\<open>ErrNoState\<close>.
\<close>

theorem GetOAuth2State_unknown_nonce_is_Internal:
  "fst (GetOAuth2State ''never-created'' empty_db) = Inl ErrSqliteInternal
   \<and> fst (GetOAuth2State ''never-created'' empty_db) \<noteq> Inl ErrNoState"
  by (simp add: GetOAuth2State_def query_state_def next_fault_def errors_Is_def
      ErrNotFound_def empty_db_def)

text \<open>
  C6. The second part of the claim fails on the code: for an identity that has no row,
  in a database of three other users and with no fault of the engine, \<^verbatim>\<open>GetUser\<close> returns
  \<^verbatim>\<open>ErrSqliteInternal\<close>, not \<^verbatim>\<open>ErrNoUser\<close>.
\<close>

theorem GetUser_unknown_identity_is_Internal:
  "fst (GetUser test_lib 42 (test_db [])) = Inl ErrSqliteInternal
   \<and> fst (GetUser test_lib 42 (test_db [])) \<noteq> Inl ErrNoUser"
  by (simp add: GetUser_def query_user_def next_fault_def errors_Is_def ErrNotFound_def
      test_db_def)

text \<open>
  C7. In a database where no identity has two rows and the engine reports no fault, after
  two calls of \<^verbatim>\<open>CreateUser\<close> for the same identity the second call has returned
  \<^verbatim>\<open>ErrSqliteUserAlreadyExists\<close> (not \<^verbatim>\<open>ErrSqliteInternal\<close>) and the identity has exactly one
  row. And whenever the insert fails with an error that is not an \<^verbatim>\<open>sqlite3.Error\<close> of
  extended code 1555, \<^verbatim>\<open>CreateUser\<close> returns \<^verbatim>\<open>ErrSqliteInternal\<close>.
\<close>

theorem CreateUser_twice_one_row:
  assumes "faults db = []"
      and "distinct (map telegram_id (users db))"
      and "CreateUser tid l1 db = (r1, db1)"
      and "CreateUser tid l2 db1 = (r2, db2)"
  shows "r2 = Some ErrSqliteUserAlreadyExists
       \<and> r2 \<noteq> Some ErrSqliteInternal
       \<and> length (filter (\<lambda>r. telegram_id r = tid) (users db2)) = 1
       \<and> (\<forall>tid' l' db' e.
             fst (exec_insert_user tid' l' db') = Some e \<and> (\<forall>c. e \<noteq> SqliteError c 1555)
             \<longrightarrow> fst (CreateUser tid' l' db') = Some ErrSqliteInternal)"
proof -
  have second: "r2 = Some ErrSqliteUserAlreadyExists"
    using assms
    by (auto simp: CreateUser_def exec_insert_user_def next_fault_def log_line_def
        errors_As_sqlite3_Error_def SQLITE_CONSTRAINT_PRIMARYKEY_def split: if_splits)
  have one: "length (filter (\<lambda>r. telegram_id r = tid) (users db2)) = 1"
    using assms
    by (auto simp: CreateUser_def exec_insert_user_def next_fault_def log_line_def
        errors_As_sqlite3_Error_def SQLITE_CONSTRAINT_PRIMARYKEY_def distinct_filter_one
        split: if_splits)
  have other: "\<forall>tid' l' db' e.
             fst (exec_insert_user tid' l' db') = Some e \<and> (\<forall>c. e \<noteq> SqliteError c 1555)
             \<longrightarrow> fst (CreateUser tid' l' db') = Some ErrSqliteInternal"
    by (auto simp: CreateUser_def errors_As_sqlite3_Error_def
        split: prod.splits error.splits option.splits)
  from second one other show ?thesis by simp
qed

theorem CreateUser_twice_one_row_witness:
  "CreateUser 5 ''en'' empty_db =
     (None, empty_db\<lparr>users := [\<lparr>telegram_id = 5, fastmail_token = None, lang = ''en''\<rparr>]\<rparr>)
   \<and> fst (CreateUser 5 ''de''
            (empty_db\<lparr>users := [\<lparr>telegram_id = 5, fastmail_token = None, lang = ''en''\<rparr>]\<rparr>)) =
       Some ErrSqliteUserAlreadyExists
   \<and> users (snd (CreateUser 5 ''de''
            (empty_db\<lparr>users := [\<lparr>telegram_id = 5, fastmail_token = None, lang = ''en''\<rparr>]\<rparr>))) =
       [\<lparr>telegram_id = 5, fastmail_token = None, lang = ''en''\<rparr>]"
proof -
  let ?db1 = "empty_db\<lparr>users := [\<lparr>telegram_id = 5, fastmail_token = None, lang = ''en''\<rparr>]\<rparr>"
  let ?db2 = "log_line ''Duplicate key value violation!'' ?db1"
  have f: "faults empty_db = []" and d: "distinct (map telegram_id (users empty_db))"
    by (simp_all add: empty_db_def)
  have c1: "CreateUser 5 ''en'' empty_db = (None, ?db1)"
    by (simp add: CreateUser_def exec_insert_user_def next_fault_def
        errors_As_sqlite3_Error_def empty_db_def)
  have c2: "CreateUser 5 ''de'' ?db1 = (Some ErrSqliteUserAlreadyExists, ?db2)"
    by (simp add: CreateUser_def exec_insert_user_def next_fault_def
        errors_As_sqlite3_Error_def SQLITE_CONSTRAINT_PRIMARYKEY_def empty_db_def)
  from CreateUser_twice_one_row [OF f d c1 c2] c1 c2
  show ?thesis
    by (simp add: log_line_def empty_db_def)
qed

section \<open>Properties of the dispatch loop\<close>







lemma step_cases:
  assumes "step H u st = Inr st1"
  shows "st1 = st \<or> (\<exists>h msg loc. st1 = handle H h msg loc u st)"
  using assms
  by (auto simp: step_def Let_def split: option.splits list.splits if_splits)




text \<open>
  The loop over a sequence is the loop over a first part followed by the loop over the
  rest, so what holds of the body at the head of a sequence holds at every position.
\<close>

lemma serve_loop_append:
  "serve_loop H (us @ vs) st =
     (case serve_loop H us st of Inl p \<Rightarrow> Inl p | Inr st1 \<Rightarrow> serve_loop H vs st1)"
  by (induction us arbitrary: st) (simp_all split: sum.splits)



text \<open>
  C10. For an update with no message, no callback query and no inline query the loop body
  returns the state as it was (no handler is called, nothing is logged, no panic), and the
  loop goes on with the remaining updates.
\<close>

theorem unclassified_update_is_skipped:
  assumes "Message update = None"
      and "CallbackQuery update = None"
      and "InlineQuery update = None"
  shows "step H update st = Inr st
       \<and> serve_loop H (update # updates) st = serve_loop H updates st"
  using assms by (simp add: step_def)

theorem unclassified_update_is_skipped_witness:
  "step failing bare_update idle = Inr idle
   \<and> serve_loop failing [bare_update, inline_update] idle =
       Inr \<lparr>world = 1,
            errlog = [(''Error while trying to answer inline query!'',
                       OtherError ''handler failed'')],
            invoked = [(answerInlineQueryWithEmail, inline_update,
                        Some (OtherError ''handler failed''))]\<rparr>"
proof -
  have a: "Message bare_update = None" and b: "CallbackQuery bare_update = None"
    and c: "InlineQuery bare_update = None"
    by (simp_all add: bare_update_def)
  from unclassified_update_is_skipped [OF a b c, of failing idle "[inline_update]"]
  show ?thesis
    by (simp add: step_def inline_update_def handle_def failing_def idle_def english_def)
qed



end
